theory Spec2Isabelle
  imports Complex_Main "HOL-Library.Word"
begin

section \<open>JavaScript strings\<close>

text \<open>
  A JavaScript string is a sequence of UTF-16 code units. String literals of the source are
  ASCII and are written \<open>js ''...''\<close>. The empty string is the only falsy string, so
  \<^verbatim>\<open>if (s)\<close> is \<open>s \<noteq> []\<close> and \<^verbatim>\<open>if (!s)\<close> is \<open>s = []\<close>.
\<close>

type_synonym jsstring = "16 word list"

definition js :: "string \<Rightarrow> jsstring" where
  "js s = map of_char s"

text \<open>
  \<^verbatim>\<open>String.prototype.trim\<close> strips the code units of ECMAScript's WhiteSpace and
  LineTerminator productions from both ends.
\<close>

definition isWhiteSpace :: "16 word \<Rightarrow> bool" where
  "isWhiteSpace c \<longleftrightarrow>
     c \<in> set [0x0009, 0x000A, 0x000B, 0x000C, 0x000D, 0x0020, 0x00A0, 0x1680,
              0x2000, 0x2001, 0x2002, 0x2003, 0x2004, 0x2005, 0x2006, 0x2007,
              0x2008, 0x2009, 0x200A, 0x2028, 0x2029, 0x202F, 0x205F, 0x3000, 0xFEFF]"

definition trim :: "jsstring \<Rightarrow> jsstring" where
  "trim s = rev (dropWhile isWhiteSpace (rev (dropWhile isWhiteSpace s)))"

text \<open>
  The template literal \<^verbatim>\<open>`${n}`\<close> of an integer \<open>n\<close> (below \<open>10^21\<close> in
  absolute value) is its decimal numeral, with a minus sign when negative.
\<close>

definition digitChar :: "nat \<Rightarrow> 16 word" where
  "digitChar d = of_nat (48 + d)"

function decimal :: "nat \<Rightarrow> jsstring" where
  "decimal n = (if n < 10 then [digitChar n] else decimal (n div 10) @ [digitChar (n mod 10)])"
  by pat_completeness auto
termination
  by (relation "measure id") auto

declare decimal.simps [simp del]

definition numberToString :: "int \<Rightarrow> jsstring" where
  "numberToString i = (if i < 0 then js ''-'' @ decimal (nat (- i)) else decimal (nat i))"

section \<open>JavaScript numbers\<close>

text \<open>
  A JavaScript number is an IEEE 754 double. A finite double is modelled by the real it
  denotes; \<open>toDouble\<close> rounds a real to the nearest double, ties to the even significand.
  For \<open>x \<noteq> 0\<close>, \<open>exponent x\<close> is the integer \<open>k\<close> with \<open>2^k \<le> \<bar>x\<bar> < 2^(k+1)\<close>, and the
  doubles near \<open>x\<close> are the multiples of \<open>2^(k-52)\<close>. The exponent range is not bounded:
  the operands of this program (32-bit image sizes and the constants 100, 10 and 2) stay
  far inside the range of normal doubles. Negative zero is not modelled; no operation on
  these operands produces it.
\<close>

function bitLength :: "nat \<Rightarrow> nat" where
  "bitLength n = (if n = 0 then 0 else Suc (bitLength (n div 2)))"
  by pat_completeness auto
termination
  by (relation "measure id") auto

declare bitLength.simps [simp del]

definition exponent :: "real \<Rightarrow> int" where
  "exponent x =
     (if 1 \<le> \<bar>x\<bar> then int (bitLength (nat \<lfloor>\<bar>x\<bar>\<rfloor>)) - 1
      else - int (bitLength (nat (\<lceil>1 / \<bar>x\<bar>\<rceil> - 1))))"

definition pow2 :: "int \<Rightarrow> real" where
  "pow2 e = (if 0 \<le> e then 2 ^ nat e else 1 / 2 ^ nat (- e))"

definition roundTiesToEven :: "real \<Rightarrow> int" where
  "roundTiesToEven x =
     (let n = \<lfloor>x\<rfloor>; r = x - of_int n
      in if r < 1 / 2 then n else if 1 / 2 < r then n + 1 else if even n then n else n + 1)"

definition toDouble :: "real \<Rightarrow> real" where
  "toDouble x =
     (if x = 0 then 0
      else let e = exponent x - 52
           in of_int (roundTiesToEven (x / pow2 e)) * pow2 e)"

text \<open>
  The values of a number: a finite double, an infinity, or NaN. The operators \<^verbatim>\<open>/\<close>,
  \<^verbatim>\<open>*\<close>, \<^verbatim>\<open>-\<close> and \<^verbatim>\<open>Math.min\<close> on them; a finite result is rounded.
\<close>

datatype number = Finite real | PosInfinity | NegInfinity | NaN

fun jsDiv :: "number \<Rightarrow> number \<Rightarrow> number" where
  "jsDiv (Finite a) (Finite b) =
     (if b \<noteq> 0 then Finite (toDouble (a / b))
      else if a = 0 then NaN else if 0 < a then PosInfinity else NegInfinity)"
| "jsDiv (Finite a) PosInfinity = Finite 0"
| "jsDiv (Finite a) NegInfinity = Finite 0"
| "jsDiv PosInfinity (Finite b) = (if 0 \<le> b then PosInfinity else NegInfinity)"
| "jsDiv NegInfinity (Finite b) = (if 0 \<le> b then NegInfinity else PosInfinity)"
| "jsDiv x y = NaN"

fun jsMul :: "number \<Rightarrow> number \<Rightarrow> number" where
  "jsMul (Finite a) (Finite b) = Finite (toDouble (a * b))"
| "jsMul (Finite a) PosInfinity =
     (if a = 0 then NaN else if 0 < a then PosInfinity else NegInfinity)"
| "jsMul (Finite a) NegInfinity =
     (if a = 0 then NaN else if 0 < a then NegInfinity else PosInfinity)"
| "jsMul PosInfinity (Finite b) =
     (if b = 0 then NaN else if 0 < b then PosInfinity else NegInfinity)"
| "jsMul NegInfinity (Finite b) =
     (if b = 0 then NaN else if 0 < b then NegInfinity else PosInfinity)"
| "jsMul PosInfinity PosInfinity = PosInfinity"
| "jsMul PosInfinity NegInfinity = NegInfinity"
| "jsMul NegInfinity PosInfinity = NegInfinity"
| "jsMul NegInfinity NegInfinity = PosInfinity"
| "jsMul x y = NaN"

fun jsSub :: "number \<Rightarrow> number \<Rightarrow> number" where
  "jsSub (Finite a) (Finite b) = Finite (toDouble (a - b))"
| "jsSub (Finite a) PosInfinity = NegInfinity"
| "jsSub (Finite a) NegInfinity = PosInfinity"
| "jsSub PosInfinity (Finite b) = PosInfinity"
| "jsSub NegInfinity (Finite b) = NegInfinity"
| "jsSub PosInfinity NegInfinity = PosInfinity"
| "jsSub NegInfinity PosInfinity = NegInfinity"
| "jsSub x y = NaN"

fun jsMin :: "number \<Rightarrow> number \<Rightarrow> number" where
  "jsMin NaN y = NaN"
| "jsMin x NaN = NaN"
| "jsMin NegInfinity y = NegInfinity"
| "jsMin x NegInfinity = NegInfinity"
| "jsMin PosInfinity y = y"
| "jsMin x PosInfinity = x"
| "jsMin (Finite a) (Finite b) = Finite (min a b)"

text \<open>\<^verbatim>\<open>Math.PI\<close> is the double nearest to \<open>\<pi>\<close>.\<close>

definition Math_PI :: real where
  "Math_PI = 884279719003555 / 281474976710656"

section \<open>The canvas\<close>

text \<open>
  A canvas is modelled by its size, the part of the 2D context state the source uses (fill
  style, current path, clipping region) and the list of paint operations applied since the
  surface was last blank. Two canvases with the same size and the same paint list have the
  same pixels. The coordinates of an operation are finite doubles, given as reals. An image
  has its size as the 32-bit unsigned integers of \<^verbatim>\<open>img.width\<close> and \<^verbatim>\<open>img.height\<close>.
\<close>

datatype path_cmd =
    RoundRect real real real real "real list"
  | Arc real real real real real
  | ClosePath

record image =
  img_src :: jsstring
  img_width :: "32 word"
  img_height :: "32 word"

datatype ec_level = L | M | Q | H

record qr_options =
  errorCorrectionLevel :: ec_level
  width :: nat
  margin :: nat

text \<open>
  Each paint operation carries the clipping region (a list of paths, intersected) in force
  when it was applied. \<open>Symbol\<close> is the module matrix the external encoder paints.
\<close>

datatype paint =
    Fill jsstring "path_cmd list" "path_cmd list list"
  | Image image real real real real "path_cmd list list"
  | Clear real real real real "path_cmd list list"
  | Symbol jsstring qr_options

record canvas =
  cv_width :: nat
  cv_height :: nat
  fillStyle :: jsstring
  path :: "path_cmd list"
  clip :: "path_cmd list list"
  painted :: "paint list"

text \<open>\<^verbatim>\<open>document.createElement('canvas')\<close>: 300 by 150, default context state.\<close>

definition createCanvas :: canvas where
  "createCanvas =
     \<lparr>cv_width = 300, cv_height = 150, fillStyle = js ''#000000'', path = [], clip = [],
      painted = []\<rparr>"

text \<open>Assigning \<^verbatim>\<open>canvas.width\<close> or \<^verbatim>\<open>canvas.height\<close> resets surface and context.\<close>

definition set_width :: "nat \<Rightarrow> canvas \<Rightarrow> canvas" where
  "set_width n c = createCanvas\<lparr>cv_width := n, cv_height := cv_height c\<rparr>"

definition set_height :: "nat \<Rightarrow> canvas \<Rightarrow> canvas" where
  "set_height n c = createCanvas\<lparr>cv_width := cv_width c, cv_height := n\<rparr>"

definition set_fillStyle :: "jsstring \<Rightarrow> canvas \<Rightarrow> canvas" where
  "set_fillStyle s c = c\<lparr>fillStyle := s\<rparr>"

definition beginPath :: "canvas \<Rightarrow> canvas" where
  "beginPath c = c\<lparr>path := []\<rparr>"

definition roundRect :: "real \<Rightarrow> real \<Rightarrow> real \<Rightarrow> real \<Rightarrow> real list \<Rightarrow> canvas \<Rightarrow> canvas" where
  "roundRect x y w h radii c = c\<lparr>path := path c @ [RoundRect x y w h radii]\<rparr>"

definition arc :: "real \<Rightarrow> real \<Rightarrow> real \<Rightarrow> real \<Rightarrow> real \<Rightarrow> canvas \<Rightarrow> canvas" where
  "arc x y r a0 a1 c = c\<lparr>path := path c @ [Arc x y r a0 a1]\<rparr>"

definition closePath :: "canvas \<Rightarrow> canvas" where
  "closePath c = c\<lparr>path := path c @ [ClosePath]\<rparr>"

definition fill_path :: "canvas \<Rightarrow> canvas" where
  "fill_path c = c\<lparr>painted := painted c @ [Fill (fillStyle c) (path c) (clip c)]\<rparr>"

definition clip_path :: "canvas \<Rightarrow> canvas" where
  "clip_path c = c\<lparr>clip := clip c @ [path c]\<rparr>"

definition drawImage :: "image \<Rightarrow> real \<Rightarrow> real \<Rightarrow> real \<Rightarrow> real \<Rightarrow> canvas \<Rightarrow> canvas" where
  "drawImage img x y w h c = c\<lparr>painted := painted c @ [Image img x y w h (clip c)]\<rparr>"

text \<open>
  \<^verbatim>\<open>clearRect\<close> erases the rectangle. When the rectangle covers the whole surface and no
  clip is set, the surface is blank again; otherwise the erasure is one more operation.
\<close>

definition clearRect :: "real \<Rightarrow> real \<Rightarrow> real \<Rightarrow> real \<Rightarrow> canvas \<Rightarrow> canvas" where
  "clearRect x y w h c =
     (if x \<le> 0 \<and> y \<le> 0 \<and> real (cv_width c) \<le> x + w \<and> real (cv_height c) \<le> y + h
         \<and> clip c = []
      then c\<lparr>painted := []\<rparr>
      else c\<lparr>painted := painted c @ [Clear x y w h (clip c)]\<rparr>)"

text \<open>
  \<^verbatim>\<open>arc\<close> and \<^verbatim>\<open>drawImage\<close> as called with the result of a computation: the call
  returns without effect when an argument is infinite or NaN, and \<^verbatim>\<open>drawImage\<close> also
  when the image has zero width or height.
\<close>

definition ctx_arc :: "number \<Rightarrow> number \<Rightarrow> number \<Rightarrow> number \<Rightarrow> number \<Rightarrow> canvas \<Rightarrow> canvas" where
  "ctx_arc x y r a0 a1 c =
     (case (x, y, r, a0, a1) of
        (Finite x', Finite y', Finite r', Finite a0', Finite a1') \<Rightarrow> arc x' y' r' a0' a1' c
      | _ \<Rightarrow> c)"

definition ctx_drawImage :: "image \<Rightarrow> number \<Rightarrow> number \<Rightarrow> number \<Rightarrow> number \<Rightarrow> canvas \<Rightarrow> canvas" where
  "ctx_drawImage img x y w h c =
     (if img_width img = 0 \<or> img_height img = 0 then c
      else case (x, y, w, h) of
             (Finite x', Finite y', Finite w', Finite h') \<Rightarrow> drawImage img x' y' w' h' c
           | _ \<Rightarrow> c)"

section \<open>The browser and the external libraries\<close>

record upload_file =
  file_name :: jsstring
  file_size :: nat

text \<open>
  What the component calls but does not implement is a parameter of the model:
  \<^item> \<open>toCanvas\<close> is \<^verbatim>\<open>QRCode.toCanvas\<close> of the qrcode package: it renders into the given
    canvas, or rejects (\<open>None\<close>), for instance when the text exceeds the capacity;
  \<^item> \<open>pngBase64\<close> is the PNG encoding behind \<^verbatim>\<open>canvas.toDataURL('image/png')\<close>;
  \<^item> \<open>readAsDataURL\<close> is the result a \<^verbatim>\<open>FileReader\<close> delivers to \<^verbatim>\<open>onload\<close>
    (\<open>None\<close>: the read fails and \<^verbatim>\<open>onload\<close> never fires);
  \<^item> \<open>loadImage\<close> is the decoding of an \<^verbatim>\<open>Image\<close> whose \<^verbatim>\<open>src\<close> was assigned
    (\<open>None\<close>: the load fails and \<^verbatim>\<open>onload\<close> never fires).
\<close>

record browser =
  toCanvas :: "canvas \<Rightarrow> jsstring \<Rightarrow> qr_options \<Rightarrow> canvas option"
  pngBase64 :: "canvas \<Rightarrow> jsstring"
  readAsDataURL :: "upload_file \<Rightarrow> jsstring option"
  loadImage :: "jsstring \<Rightarrow> image option"

definition toDataURL :: "browser \<Rightarrow> canvas \<Rightarrow> jsstring" where
  "toDataURL env c = js ''data:image/png;base64,'' @ pngBase64 env c"

section \<open>The page component\<close>

text \<open>
  The state of \<^verbatim>\<open>Home\<close>: the five \<^verbatim>\<open>useState\<close> variables, the two refs, the
  callbacks the browser still has to deliver (\<open>pending\<close>, in the order they were
  registered) and the effects performed so far, in order (\<open>trace\<close>).
\<close>

record file_input =
  fi_value :: jsstring
  fi_files :: "upload_file list"

datatype task =
    FileReaderOnload upload_file
  | UploadImgOnload jsstring
  | QRLogoOnload jsstring

datatype effect =
    SetQRCode jsstring
  | SetLogoPreview jsstring
  | SetError jsstring
  | SetLoading bool
  | FileReaderRead upload_file
  | CanvasClearRect real real real real
  | QRCodeToCanvas jsstring qr_options
  | CanvasDrawImage image real real real real
  | ConsoleError jsstring
  | AnchorClick jsstring jsstring

record home =
  inputData :: jsstring
  qrCode :: jsstring
  logoPreview :: jsstring
  error :: jsstring
  loading :: bool
  logoInputRef :: "file_input option"
  canvasRef :: "canvas option"
  pending :: "task list"
  trace :: "effect list"

definition emit :: "effect \<Rightarrow> home \<Rightarrow> home" where
  "emit e s = s\<lparr>trace := trace s @ [e]\<rparr>"

definition setQRCode :: "jsstring \<Rightarrow> home \<Rightarrow> home" where
  "setQRCode v s = emit (SetQRCode v) (s\<lparr>qrCode := v\<rparr>)"

definition setLogoPreview :: "jsstring \<Rightarrow> home \<Rightarrow> home" where
  "setLogoPreview v s = emit (SetLogoPreview v) (s\<lparr>logoPreview := v\<rparr>)"

definition setError :: "jsstring \<Rightarrow> home \<Rightarrow> home" where
  "setError v s = emit (SetError v) (s\<lparr>error := v\<rparr>)"

definition setLoading :: "bool \<Rightarrow> home \<Rightarrow> home" where
  "setLoading v s = emit (SetLoading v) (s\<lparr>loading := v\<rparr>)"

definition later :: "task \<Rightarrow> home \<Rightarrow> home" where
  "later t s = s\<lparr>pending := pending s @ [t]\<rparr>"

subsection \<open>Logo upload\<close>

text \<open>
  The body of \<^verbatim>\<open>img.onload\<close> in \<^verbatim>\<open>handleLogoUpload\<close>, up to the export: the statements
  in source order on a fresh canvas. Every arithmetic operator of the source is the
  operator on numbers, so each quotient, product and difference is rounded where the
  source rounds it, and a width or height of zero divides to infinity.
\<close>

definition processLogo :: "image \<Rightarrow> canvas" where
  "processLogo img =
     (let maxSize = (100::nat);
          borderWidth = (10::nat);
          cv = set_height maxSize (set_width maxSize createCanvas);
          w = Finite (real (unat (img_width img)));
          h = Finite (real (unat (img_height img)));
          scale = jsMin
            (jsDiv (jsSub (Finite (real maxSize)) (jsMul (Finite 2) (Finite (real borderWidth))))
               w)
            (jsDiv (jsSub (Finite (real maxSize)) (jsMul (Finite 2) (Finite (real borderWidth))))
               h);
          scaledWidth = jsMul w scale;
          scaledHeight = jsMul h scale;
          cv = set_fillStyle (js ''white'') cv;
          cv = beginPath cv;
          cv = roundRect 0 0 (real maxSize) (real maxSize) [20] cv;
          cv = fill_path cv;
          cv = beginPath cv;
          cv = ctx_arc (jsDiv (Finite (real maxSize)) (Finite 2))
                 (jsDiv (Finite (real maxSize)) (Finite 2))
                 (jsDiv (jsSub (Finite (real maxSize))
                           (jsMul (Finite 2) (Finite (real borderWidth))))
                    (Finite 2))
                 (Finite 0) (jsMul (Finite Math_PI) (Finite 2)) cv;
          cv = closePath cv;
          cv = clip_path cv;
          x = jsDiv (jsSub (Finite (real maxSize)) scaledWidth) (Finite 2);
          y = jsDiv (jsSub (Finite (real maxSize)) scaledHeight) (Finite 2)
      in ctx_drawImage img x y scaledWidth scaledHeight cv)"

text \<open>
  \<^verbatim>\<open>handleLogoUpload\<close>, with \<^verbatim>\<open>e.target.files\<close> as argument. The read is asynchronous:
  the handler returns once the reader has been started.
\<close>

definition handleLogoUpload :: "upload_file list \<Rightarrow> home \<Rightarrow> home" where
  "handleLogoUpload files s =
     (case files of
        [] \<Rightarrow> s
      | f # _ \<Rightarrow>
          if file_size f > 5 * 1024 * 1024
          then setError (js ''Logo must be less than 5MB'') s
          else later (FileReaderOnload f) (emit (FileReaderRead f) s))"

subsection \<open>Generation\<close>

definition qrOptions :: qr_options where
  "qrOptions = \<lparr>errorCorrectionLevel = H, width = 400, margin = 1\<rparr>"

text \<open>
  \<^verbatim>\<open>embedLogoInQRCode\<close> up to its return. Every path that entered the \<^verbatim>\<open>try\<close> leaves
  through the \<^verbatim>\<open>finally\<close>, also the early return on a missing canvas. With a logo, the
  drawing of the logo and the export are left to the image's \<^verbatim>\<open>onload\<close>.
\<close>

definition embedLogoInQRCode :: "browser \<Rightarrow> home \<Rightarrow> home" where
  "embedLogoInQRCode env s =
     (if trim (inputData s) = [] then setError (js ''Please enter data'') s
      else
        let s = setLoading True s;
            s = setError [] s
        in setLoading False
          (case canvasRef s of
             None \<Rightarrow> s
           | Some cv \<Rightarrow>
               let cw = real (cv_width cv);
                   ch = real (cv_height cv);
                   cv = clearRect 0 0 cw ch cv;
                   s = emit (CanvasClearRect 0 0 cw ch) (s\<lparr>canvasRef := Some cv\<rparr>);
                   s = emit (QRCodeToCanvas (inputData s) qrOptions) s
               in (case toCanvas env cv (inputData s) qrOptions of
                     None \<Rightarrow>
                       setError (js ''Failed to generate QR code'')
                         (emit (ConsoleError (js ''QR Code Generation Error:'')) s)
                   | Some cv \<Rightarrow>
                       let s = s\<lparr>canvasRef := Some cv\<rparr>
                       in if logoPreview s \<noteq> []
                          then later (QRLogoOnload (logoPreview s)) s
                          else setQRCode (toDataURL env cv) s)))"

subsection \<open>The asynchronous callbacks\<close>

text \<open>
  One callback of the queue: the reader's \<^verbatim>\<open>onload\<close> assigns the upload image's
  \<^verbatim>\<open>src\<close>; that image's \<^verbatim>\<open>onload\<close> builds the logo; the \<^verbatim>\<open>onload\<close> of the image made
  by \<^verbatim>\<open>embedLogoInQRCode\<close> draws the logo on the working canvas and exports it. A read
  or load that fails fires nothing (the source registers no \<^verbatim>\<open>onerror\<close>).
\<close>

definition run_task :: "browser \<Rightarrow> task \<Rightarrow> home \<Rightarrow> home" where
  "run_task env t s =
     (case t of
        FileReaderOnload f \<Rightarrow>
          (case readAsDataURL env f of
             None \<Rightarrow> s
           | Some url \<Rightarrow> later (UploadImgOnload url) s)
      | UploadImgOnload url \<Rightarrow>
          (case loadImage env url of
             None \<Rightarrow> s
           | Some img \<Rightarrow> setLogoPreview (toDataURL env (processLogo img)) s)
      | QRLogoOnload url \<Rightarrow>
          (case loadImage env url of
             None \<Rightarrow> s
           | Some logoImg \<Rightarrow>
               (case canvasRef s of
                  None \<Rightarrow> s
                | Some cv \<Rightarrow>
                    let logoSize = (100::real);
                        x = (real (cv_width cv) - logoSize) / 2;
                        y = (real (cv_height cv) - logoSize) / 2;
                        cv = drawImage logoImg x y logoSize logoSize cv;
                        s = emit (CanvasDrawImage logoImg x y logoSize logoSize)
                              (s\<lparr>canvasRef := Some cv\<rparr>)
                    in setQRCode (toDataURL env cv) s)))"

fun weight :: "task \<Rightarrow> nat" where
  "weight (FileReaderOnload f) = 2"
| "weight (UploadImgOnload url) = 1"
| "weight (QRLogoOnload url) = 1"

text \<open>The event loop delivers the pending callbacks until none is left.\<close>

function settle :: "browser \<Rightarrow> home \<Rightarrow> home" where
  "settle env s =
     (case pending s of
        [] \<Rightarrow> s
      | t # ts \<Rightarrow> settle env (run_task env t (s\<lparr>pending := ts\<rparr>)))"
  by pat_completeness auto
termination
proof (relation "measure (\<lambda>(env, s). sum_list (map weight (pending s)))")
  show "wf (measure (\<lambda>(env, s). sum_list (map weight (pending s))))"
    by simp
next
  fix env :: browser and s :: home and t ts
  assume queue: "pending s = t # ts"
  have "sum_list (map weight (pending (run_task env t (s\<lparr>pending := ts\<rparr>))))
        < weight t + sum_list (map weight ts)"
    by (cases t)
       (simp_all add: run_task_def later_def setLogoPreview_def setQRCode_def emit_def Let_def
          split: option.splits)
  with queue show "((env, run_task env t (s\<lparr>pending := ts\<rparr>)), (env, s))
             \<in> measure (\<lambda>(env, s). sum_list (map weight (pending s)))"
    by simp
qed

declare settle.simps [simp del]

definition generate :: "browser \<Rightarrow> home \<Rightarrow> home" where
  "generate env s = settle env (embedLogoInQRCode env s)"

definition upload :: "browser \<Rightarrow> upload_file list \<Rightarrow> home \<Rightarrow> home" where
  "upload env files s = settle env (handleLogoUpload files s)"

subsection \<open>Removing the logo, downloading\<close>

text \<open>
  Assigning the empty string to the \<^verbatim>\<open>value\<close> of a file input empties its list of
  selected files.
\<close>

definition removeLogo :: "home \<Rightarrow> home" where
  "removeLogo s =
     (let s = setLogoPreview [] s
      in case logoInputRef s of
           None \<Rightarrow> s
         | Some inp \<Rightarrow> s\<lparr>logoInputRef := Some (inp\<lparr>fi_value := [], fi_files := []\<rparr>)\<rparr>)"

text \<open>
  \<^verbatim>\<open>downloadQRCode\<close>, with the value of \<^verbatim>\<open>Date.now()\<close> as argument. The anchor is
  appended, clicked and removed; what remains is the download the click starts, with the
  anchor's \<^verbatim>\<open>href\<close> and \<^verbatim>\<open>download\<close> attributes.
\<close>

definition downloadQRCode :: "int \<Rightarrow> home \<Rightarrow> home" where
  "downloadQRCode now s =
     (if qrCode s = [] then setError (js ''No QR code to download'') s
      else emit (AnchorClick (qrCode s) (js ''qrcode-'' @ numberToString now @ js ''.png'')) s)"

section \<open>The scanner component\<close>

text \<open>
  \<^verbatim>\<open>QRScanner\<close> wraps the \<^verbatim>\<open>Html5QrcodeScanner\<close> widget of the html5-qrcode package.
  Of the widget the model keeps its constructor arguments and whether it is scanning:
  \<^verbatim>\<open>render\<close> starts the camera and the scanning, \<^verbatim>\<open>clear\<close> stops both and releases
  the camera.
\<close>

record scanner_config =
  fps :: nat
  qrbox_width :: nat
  qrbox_height :: nat

datatype scanner_status = Created | Scanning | Cleared

record html5QrcodeScanner =
  elementId :: jsstring
  config :: scanner_config
  verbose :: bool
  status :: scanner_status

datatype scan_effect =
    OnResult jsstring
  | LogError jsstring
  | Render
  | ClearScanner

record qrscanner =
  scannerRef :: "html5QrcodeScanner option"
  effects :: "scan_effect list"

definition render :: "qrscanner \<Rightarrow> qrscanner" where
  "render q =
     q\<lparr>scannerRef := map_option (\<lambda>sc. sc\<lparr>status := Scanning\<rparr>) (scannerRef q),
       effects := effects q @ [Render]\<rparr>"

definition clear :: "qrscanner \<Rightarrow> qrscanner" where
  "clear q =
     q\<lparr>scannerRef := map_option (\<lambda>sc. sc\<lparr>status := Cleared\<rparr>) (scannerRef q),
       effects := effects q @ [ClearScanner]\<rparr>"

text \<open>The body of the effect, run on activation.\<close>

definition useEffect :: "qrscanner \<Rightarrow> qrscanner" where
  "useEffect q =
     render (q\<lparr>scannerRef :=
       Some \<lparr>elementId = js ''qr-reader'',
             config = \<lparr>fps = 10, qrbox_width = 250, qrbox_height = 250\<rparr>,
             verbose = False, status = Created\<rparr>\<rparr>)"

text \<open>
  The two callbacks passed to \<^verbatim>\<open>render\<close>. The caller's \<^verbatim>\<open>onResult\<close> is recorded as an
  effect; it is taken to return normally.
\<close>

definition onScanSuccess :: "jsstring \<Rightarrow> qrscanner \<Rightarrow> qrscanner" where
  "onScanSuccess decodedText q =
     (let q = q\<lparr>effects := effects q @ [OnResult decodedText]\<rparr>
      in case scannerRef q of None \<Rightarrow> q | Some sc \<Rightarrow> clear q)"

definition onScanError :: "jsstring \<Rightarrow> qrscanner \<Rightarrow> qrscanner" where
  "onScanError err q = q\<lparr>effects := effects q @ [LogError err]\<rparr>"

text \<open>The function the effect returns, run on deactivation.\<close>

definition cleanup :: "qrscanner \<Rightarrow> qrscanner" where
  "cleanup q = (case scannerRef q of None \<Rightarrow> q | Some sc \<Rightarrow> clear q)"

text \<open>
  What the widget reports for one sampled frame. It calls back only while it is scanning.
\<close>

datatype frame = Decoded jsstring | NotDecoded jsstring

definition deliver :: "frame \<Rightarrow> qrscanner \<Rightarrow> qrscanner" where
  "deliver fr q =
     (case scannerRef q of
        None \<Rightarrow> q
      | Some sc \<Rightarrow>
          if status sc = Scanning
          then (case fr of
                  Decoded decodedText \<Rightarrow> onScanSuccess decodedText q
                | NotDecoded err \<Rightarrow> onScanError err q)
          else q)"

definition scanning :: "qrscanner \<Rightarrow> bool" where
  "scanning q = (case scannerRef q of None \<Rightarrow> False | Some sc \<Rightarrow> status sc = Scanning)"

definition released :: "qrscanner \<Rightarrow> bool" where
  "released q = (case scannerRef q of None \<Rightarrow> False | Some sc \<Rightarrow> status sc = Cleared)"

section \<open>Example inputs\<close>

text \<open>
  A browser in which every read and every load succeeds, with an encoder of capacity 1273
  code units, and one whose encoder always rejects.
\<close>

definition demo_browser :: browser where
  "demo_browser =
     \<lparr>toCanvas = (\<lambda>cv text opts.
         if length text \<le> 1273
         then Some (createCanvas\<lparr>cv_width := width opts, cv_height := width opts,
                                  painted := [Symbol text opts]\<rparr>)
         else None),
      pngBase64 = (\<lambda>cv. decimal (length (painted cv))),
      readAsDataURL = (\<lambda>f. Some (js ''data:image/png;base64,'' @ file_name f)),
      loadImage = (\<lambda>src. Some \<lparr>img_src = src, img_width = 200, img_height = 100\<rparr>)\<rparr>"

definition failing_browser :: browser where
  "failing_browser = demo_browser\<lparr>toCanvas := (\<lambda>cv text opts. None)\<rparr>"

text \<open>The page as first rendered: the working canvas is 400 by 400.\<close>

definition initial :: home where
  "initial =
     \<lparr>inputData = [], qrCode = [], logoPreview = [], error = [], loading = False,
      logoInputRef = Some \<lparr>fi_value = [], fi_files = []\<rparr>,
      canvasRef = Some (set_height 400 (set_width 400 createCanvas)),
      pending = [], trace = []\<rparr>"

definition small_logo :: upload_file where
  "small_logo = \<lparr>file_name = js ''logo.png'', file_size = 2048\<rparr>"

definition huge_logo :: upload_file where
  "huge_logo = \<lparr>file_name = js ''poster.png'', file_size = 5242881\<rparr>"

definition unmounted :: qrscanner where
  "unmounted = \<lparr>scannerRef = None, effects = []\<rparr>"

definition hello_page :: home where
  "hello_page = initial\<lparr>inputData := js ''hello''\<rparr>"

definition blank_page :: home where
  "blank_page = initial\<lparr>inputData := [0x20]\<rparr>"

definition wide_image :: image where
  "wide_image =
     \<lparr>img_src = js ''data:image/png;base64,logo.png'', img_width = 200, img_height = 100\<rparr>"

text \<open>The page after a logo was uploaded, and after a code was then generated with it.\<close>

definition with_logo :: home where
  "with_logo = upload demo_browser [small_logo] hello_page"

definition logo_generated :: home where
  "logo_generated = generate demo_browser with_logo"

text \<open>
  The page after a logo was uploaded and the generation handler has returned, with the
  callback that will draw the logo still pending.
\<close>

definition logo_in_flight :: home where
  "logo_in_flight = embedLogoInQRCode demo_browser with_logo"

definition square_image :: image where
  "square_image = \<lparr>img_src = js ''data:image/png;base64,square.png'', img_width = 147, img_height = 147\<rparr>"

definition logo_image :: image where
  "logo_image = \<lparr>img_src = js ''data:image/png;base64,2'', img_width = 200, img_height = 100\<rparr>"

definition logo_canvas :: canvas where
  "logo_canvas =
     createCanvas\<lparr>cv_width := 400, cv_height := 400,
       painted := [Symbol (js ''hello'') qrOptions, Image logo_image 150 150 100 100 []]\<rparr>"

definition hello_canvas :: canvas where
  "hello_canvas =
     createCanvas\<lparr>cv_width := 400, cv_height := 400, painted := [Symbol (js ''hello'') qrOptions]\<rparr>"

section \<open>Predicates of the proofs\<close>

text \<open>
  A string is \<open>exported\<close> when it is the data URL of some canvas. A state \<open>will_export\<close>
  when its working canvas is mounted and its artifact either is exported already or is
  about to be, by a queued logo callback whose image loads.
\<close>

definition exported :: "browser \<Rightarrow> jsstring \<Rightarrow> bool" where
  "exported env url \<longleftrightarrow> (\<exists>cv. url = toDataURL env cv)"

definition will_export :: "browser \<Rightarrow> home \<Rightarrow> bool" where
  "will_export env s \<longleftrightarrow>
     canvasRef s \<noteq> None \<and>
     (exported env (qrCode s) \<or>
      (\<exists>url. QRLogoOnload url \<in> set (pending s) \<and> loadImage env url \<noteq> None))"

section \<open>Helper lemmas\<close>

lemmas canvas_ops =
  createCanvas_def set_width_def set_height_def set_fillStyle_def beginPath_def roundRect_def
  fill_path_def arc_def closePath_def clip_path_def drawImage_def clearRect_def

lemmas setters =
  setQRCode_def setLogoPreview_def setError_def setLoading_def emit_def later_def

subsection \<open>Numbers\<close>

text \<open>Evaluation of \<open>toDouble\<close> at numerals and their quotients.\<close>

lemmas toDouble_literal =
  toDouble_def [of 0] toDouble_def [of 1] toDouble_def [of "numeral a"]
  toDouble_def [of "numeral a / numeral b"] toDouble_def [of "1 / numeral b"]
  toDouble_def [of "- numeral a"] toDouble_def [of "- (numeral a / numeral b)"]
  toDouble_def [of "- 1"] toDouble_def [of "- (1 / numeral b)"]
  for a b

lemmas double_eval =
  toDouble_literal exponent_def pow2_def roundTiesToEven_def bitLength.simps Let_def

text \<open>
  Some roundings: a value that has no finite binary expansion, and two ties, at
  \<open>2^53 + 1\<close> and \<open>2^53 + 3\<close>, which go to the even significand.
\<close>

lemma toDouble_examples:
  "toDouble (1 / 3) = 6004799503160661 / 18014398509481984"
  "toDouble (80 / 147) = 4901877145437275 / 9007199254740992"
  "toDouble 9007199254740993 = 9007199254740992"
  "toDouble 9007199254740995 = 9007199254740996"
  by (simp_all add: double_eval)

text \<open>The bit length of a positive number brackets it between two powers of two.\<close>

lemma bitLength_bounds: "0 < n \<Longrightarrow> 2 ^ (bitLength n - 1) \<le> n \<and> n < 2 ^ bitLength n"
proof (induction n rule: bitLength.induct)
  case (1 n)
  show ?case
  proof (cases "n div 2 = 0")
    case True
    with "1.prems" have n1: "n = Suc 0" by (simp add: div_eq_0_iff)
    have "bitLength (Suc 0) = Suc 0"
      by (simp add: bitLength.simps [of "Suc 0"] bitLength.simps [of 0])
    with n1 show ?thesis by simp
  next
    case False
    then have half: "0 < n div 2" by simp
    from "1.prems" have n0: "n \<noteq> 0" by simp
    from "1.IH" [OF n0 half]
    have lo: "2 ^ (bitLength (n div 2) - 1) \<le> n div 2" and hi: "n div 2 < 2 ^ bitLength (n div 2)"
      by simp_all
    have pos: "0 < bitLength (n div 2)"
      using half by (subst bitLength.simps) simp
    have bl: "bitLength n = Suc (bitLength (n div 2))"
      using n0 by (subst bitLength.simps) simp
    from pos obtain k where k: "bitLength (n div 2) = Suc k"
      by (cases "bitLength (n div 2)") simp_all
    from lo k have "2 * 2 ^ k \<le> 2 * (n div 2)" by simp
    also have "\<dots> \<le> n" by simp
    finally have a: "2 ^ (bitLength n - 1) \<le> n"
      by (simp add: bl k)
    from hi have "n div 2 + 1 \<le> 2 ^ bitLength (n div 2)" by simp
    then have "2 * (n div 2) + 2 \<le> 2 * 2 ^ bitLength (n div 2)" by simp
    moreover have "n < 2 * (n div 2) + 2" by presburger
    ultimately have b: "n < 2 ^ bitLength n"
      by (simp add: bl)
    from a b show ?thesis ..
  qed
qed

lemma pow2_powi: "pow2 e = 2 powi e"
  by (simp add: pow2_def power_int_def inverse_eq_divide power_one_over)

lemma pow2_pos: "0 < pow2 e"
  by (simp add: pow2_powi)

lemma pow2_add: "pow2 (a + b) = pow2 a * pow2 b"
  by (simp add: pow2_powi power_int_add)

text \<open>\<open>exponent x\<close> is the binary exponent of \<open>x\<close>.\<close>

lemma exponent_bounds:
  assumes "x \<noteq> 0"
  shows "pow2 (exponent x) \<le> \<bar>x\<bar> \<and> \<bar>x\<bar> < pow2 (exponent x + 1)"
proof (cases "1 \<le> \<bar>x\<bar>")
  case True
  define n where "n = nat \<lfloor>\<bar>x\<bar>\<rfloor>"
  from True have n: "0 < n" "real n \<le> \<bar>x\<bar>" "\<bar>x\<bar> < real n + 1"
    unfolding n_def by linarith+
  from bitLength_bounds [OF n(1)] have lo: "2 ^ (bitLength n - 1) \<le> n" and hi: "n < 2 ^ bitLength n"
    by simp_all
  have pos: "0 < bitLength n"
    using n(1) by (subst bitLength.simps) simp
  have e: "exponent x = int (bitLength n) - 1"
    using True by (simp add: exponent_def n_def)
  have e': "exponent x = int (bitLength n - 1)"
    using pos e by simp
  have "pow2 (exponent x) = 2 ^ (bitLength n - 1)"
    unfolding e' by (simp add: pow2_def)
  also have "\<dots> \<le> real n"
    using lo by (metis of_nat_le_iff of_nat_numeral of_nat_power)
  finally have a: "pow2 (exponent x) \<le> \<bar>x\<bar>"
    using n(2) by simp
  from hi have "n + 1 \<le> 2 ^ bitLength n" by simp
  then have "real n + 1 \<le> 2 ^ bitLength n"
    by (metis of_nat_le_iff of_nat_numeral of_nat_power of_nat_Suc Suc_eq_plus1 add.commute)
  with n(3) have "\<bar>x\<bar> < 2 ^ bitLength n" by simp
  moreover have "pow2 (exponent x + 1) = 2 ^ bitLength n"
    by (simp add: e pow2_def)
  ultimately show ?thesis using a by simp
next
  case False
  define y where "y = 1 / \<bar>x\<bar>"
  from False assms have y: "1 < y" "0 < \<bar>x\<bar>"
    by (simp_all add: y_def)
  define m where "m = nat (\<lceil>y\<rceil> - 1)"
  from y have m: "0 < m" "real m < y" "y \<le> real m + 1"
    unfolding m_def by linarith+
  from bitLength_bounds [OF m(1)] have lo: "2 ^ (bitLength m - 1) \<le> m" and hi: "m < 2 ^ bitLength m"
    by simp_all
  have pos: "0 < bitLength m"
    using m(1) by (subst bitLength.simps) simp
  have e: "exponent x = - int (bitLength m)"
    using False by (simp add: exponent_def m_def y_def)
  from hi have "m + 1 \<le> 2 ^ bitLength m" by simp
  then have "real m + 1 \<le> 2 ^ bitLength m"
    by (metis of_nat_le_iff of_nat_numeral of_nat_power of_nat_Suc Suc_eq_plus1 add.commute)
  with m(3) have "y \<le> 2 ^ bitLength m" by simp
  then have "1 / 2 ^ bitLength m \<le> \<bar>x\<bar>"
    using y(2) by (simp add: y_def field_simps)
  moreover have "pow2 (exponent x) = 1 / 2 ^ bitLength m"
    using pos by (simp add: e pow2_def)
  ultimately have a: "pow2 (exponent x) \<le> \<bar>x\<bar>" by simp
  have lo': "(2::real) ^ (bitLength m - 1) \<le> real m"
    using lo by (metis of_nat_le_iff of_nat_numeral of_nat_power)
  have "2 ^ (bitLength m - 1) < y"
    using lo' m(2) by (rule le_less_trans)
  then have "\<bar>x\<bar> < 1 / 2 ^ (bitLength m - 1)"
    using y(2) by (simp add: y_def field_simps)
  moreover have "pow2 (exponent x + 1) = 1 / 2 ^ (bitLength m - 1)"
  proof (cases "bitLength m = 1")
    case True
    then show ?thesis by (simp add: e pow2_def)
  next
    case False
    with pos have "1 < bitLength m" by simp
    then have "nat (int (bitLength m) - 1) = bitLength m - 1" by simp
    with \<open>1 < bitLength m\<close> show ?thesis
      by (simp add: e pow2_def)
  qed
  ultimately show ?thesis using a by simp
qed

lemma roundTiesToEven_nearest: "\<bar>of_int (roundTiesToEven x) - x\<bar> \<le> 1 / 2"
  unfolding roundTiesToEven_def Let_def by (auto; linarith)

text \<open>
  \<open>toDouble x\<close> has a significand of 53 bits at the exponent of \<open>x\<close>, or is the next power
  of two, and is within half a unit in the last place of \<open>x\<close>.
\<close>

lemma toDouble_significand:
  assumes "x \<noteq> 0"
  shows "\<exists>m. toDouble x = of_int m * pow2 (exponent x - 52) \<and> 2 ^ 52 \<le> \<bar>m\<bar> \<and> \<bar>m\<bar> \<le> 2 ^ 53"
proof -
  let ?e = "exponent x - 52"
  let ?z = "x / pow2 ?e"
  let ?m = "roundTiesToEven ?z"
  have split: "pow2 (exponent x) = pow2 ?e * 2 ^ 52" "pow2 (exponent x + 1) = pow2 ?e * 2 ^ 53"
    using pow2_add [of ?e 52] pow2_add [of ?e 53]
    by (simp_all add: pow2_def [of 52] pow2_def [of 53] add.commute)
  from exponent_bounds [OF assms] split pow2_pos [of ?e]
  have z: "2 ^ 52 \<le> \<bar>?z\<bar>" "\<bar>?z\<bar> < 2 ^ 53"
    by (simp_all add: field_simps)
  have near: "\<bar>of_int ?m - ?z\<bar> \<le> 1 / 2"
    by (rule roundTiesToEven_nearest)
  have "(2::real) ^ 52 - 1 / 2 \<le> \<bar>real_of_int ?m\<bar>" "\<bar>real_of_int ?m\<bar> < 2 ^ 53 + 1 / 2"
    using z near by linarith+
  then have "4503599627370496 - 1 / 2 \<le> real_of_int \<bar>?m\<bar>"
    "real_of_int \<bar>?m\<bar> < 9007199254740992 + 1 / 2"
    by simp_all
  then have "4503599627370496 \<le> \<bar>?m\<bar>" "\<bar>?m\<bar> \<le> 9007199254740992"
    by linarith+
  then have "2 ^ 52 \<le> \<bar>?m\<bar>" "\<bar>?m\<bar> \<le> 2 ^ 53"
    by simp_all
  moreover have "toDouble x = of_int ?m * pow2 ?e"
    using assms by (simp add: toDouble_def Let_def)
  ultimately show ?thesis by blast
qed

lemma toDouble_nearest: "\<bar>toDouble x - x\<bar> \<le> pow2 (exponent x - 53)"
proof (cases "x = 0")
  case True
  then show ?thesis
    using pow2_pos [of "exponent x - 53"] by (simp add: toDouble_def)
next
  case False
  let ?e = "exponent x - 52"
  have "toDouble x - x = (of_int (roundTiesToEven (x / pow2 ?e)) - x / pow2 ?e) * pow2 ?e"
    using False pow2_pos [of ?e] by (simp add: toDouble_def Let_def field_simps)
  then have "\<bar>toDouble x - x\<bar> = \<bar>of_int (roundTiesToEven (x / pow2 ?e)) - x / pow2 ?e\<bar> * pow2 ?e"
    using pow2_pos [of ?e] by (simp add: abs_mult)
  also have "\<dots> \<le> 1 / 2 * pow2 ?e"
    using roundTiesToEven_nearest pow2_pos [of ?e] by (intro mult_right_mono) simp_all
  also have "\<dots> = pow2 (exponent x - 53)"
    using pow2_add [of "exponent x - 53" 1] by (simp add: pow2_def [of 1])
  finally show ?thesis .
qed

text \<open>The constants of the logo computation are exact.\<close>

lemma toDouble_constants:
  "toDouble 20 = 20" "toDouble 80 = 80" "toDouble 50 = 50" "toDouble 40 = 40"
  "toDouble (Math_PI * 2) = 2 * Math_PI"
  by (simp_all add: double_eval Math_PI_def)

subsection \<open>Strings\<close>

text \<open>A string trims to the empty string exactly when it consists of white space only.\<close>

lemma trim_Nil_iff: "trim s = [] \<longleftrightarrow> list_all isWhiteSpace s"
proof -
  have "dropWhile isWhiteSpace (rev (dropWhile isWhiteSpace s)) = []
        \<longleftrightarrow> dropWhile isWhiteSpace s = []"
  proof
    assume all: "dropWhile isWhiteSpace (rev (dropWhile isWhiteSpace s)) = []"
    show "dropWhile isWhiteSpace s = []"
    proof (rule ccontr)
      assume ne: "dropWhile isWhiteSpace s \<noteq> []"
      then have "\<not> isWhiteSpace (hd (dropWhile isWhiteSpace s))"
        by (rule hd_dropWhile)
      moreover from ne have "hd (dropWhile isWhiteSpace s) \<in> set (rev (dropWhile isWhiteSpace s))"
        by simp
      ultimately show False
        using all by (auto simp: dropWhile_eq_Nil_conv)
    qed
  next
    assume rest: "dropWhile isWhiteSpace s = []"
    show "dropWhile isWhiteSpace (rev (dropWhile isWhiteSpace s)) = []"
      unfolding rest by simp
  qed
  then show ?thesis
    by (simp add: trim_def dropWhile_eq_Nil_conv list_all_iff)
qed

lemma trim_hello: "trim (js ''hello'') = js ''hello''"
  by (simp add: trim_def isWhiteSpace_def js_def)

subsection \<open>The event loop\<close>

lemma settle_idle: "pending s = [] \<Longrightarrow> settle env s = s"
  by (simp add: settle.simps)

lemma settle_step:
  "pending s = t # ts \<Longrightarrow> settle env s = settle env (run_task env t (s\<lparr>pending := ts\<rparr>))"
  by (subst settle.simps) simp

text \<open>No callback touches the error.\<close>

lemma run_task_error: "error (run_task env t s) = error s"
  by (cases t) (simp_all add: run_task_def setters Let_def split: option.splits)

lemma settle_error: "error (settle env s) = error s"
proof (induction env s rule: settle.induct)
  case (1 env s)
  show ?case
  proof (cases "pending s")
    case Nil
    then show ?thesis by (simp add: settle_idle)
  next
    case (Cons t ts)
    with "1.IH" [OF Cons] show ?thesis
      by (simp add: settle_step run_task_error)
  qed
qed

text \<open>
  \<open>will_export\<close> is kept by every callback, and when the queue is empty it says that the
  artifact is exported.
\<close>

lemma will_export_step:
  assumes "will_export env s" and "pending s = t # ts"
  shows "will_export env (run_task env t (s\<lparr>pending := ts\<rparr>))"
proof (cases t)
  case (FileReaderOnload f)
  with assms show ?thesis
    by (auto simp: will_export_def run_task_def later_def split: option.splits)
next
  case (UploadImgOnload url)
  with assms show ?thesis
    by (auto simp: will_export_def run_task_def setLogoPreview_def emit_def split: option.splits)
next
  case (QRLogoOnload url)
  with assms show ?thesis
    by (auto simp: will_export_def exported_def run_task_def setQRCode_def emit_def Let_def
          split: option.splits)
qed

lemma settle_exports: "will_export env s \<Longrightarrow> exported env (qrCode (settle env s))"
proof (induction env s rule: settle.induct)
  case (1 env s)
  show ?case
  proof (cases "pending s")
    case Nil
    with "1.prems" show ?thesis
      by (simp add: settle_idle will_export_def)
  next
    case (Cons t ts)
    from "1.prems" Cons have "will_export env (run_task env t (s\<lparr>pending := ts\<rparr>))"
      by (rule will_export_step)
    with "1.IH" [OF Cons] Cons show ?thesis
      by (simp add: settle_step)
  qed
qed

lemma exported_nonempty: "exported env url \<Longrightarrow> url \<noteq> []"
  by (auto simp: exported_def toDataURL_def js_def)

subsection \<open>Generation\<close>

lemma clearRect_all:
  "clip cv = [] \<Longrightarrow>
   clearRect 0 0 (real (cv_width cv)) (real (cv_height cv)) cv = cv\<lparr>painted := []\<rparr>"
  by (simp add: clearRect_def)

text \<open>
  Every run that passes the validation sets the loading flag first and clears it last,
  whatever happens in between.
\<close>

lemma loading_bracket:
  assumes "trim (inputData s) \<noteq> []"
  shows "loading (embedLogoInQRCode env s) = False
         \<and> (\<exists>mid. trace (embedLogoInQRCode env s) =
                     trace s @ SetLoading True # mid @ [SetLoading False])"
  using assms
  by (simp add: embedLogoInQRCode_def setters Let_def split: option.splits)

lemma embed_frame:
  "logoPreview (embedLogoInQRCode env s) = logoPreview s
   \<and> logoInputRef (embedLogoInQRCode env s) = logoInputRef s"
  by (simp add: embedLogoInQRCode_def setters Let_def split: option.splits)

lemma embed_pending:
  "pending (embedLogoInQRCode env s) = pending s
   \<or> pending (embedLogoInQRCode env s) = pending s @ [QRLogoOnload (logoPreview s)]"
  by (simp add: embedLogoInQRCode_def setters Let_def split: option.splits)

lemma onload_frame:
  "logoPreview (run_task env (QRLogoOnload url) s) = logoPreview s
   \<and> logoInputRef (run_task env (QRLogoOnload url) s) = logoInputRef s
   \<and> pending (run_task env (QRLogoOnload url) s) = pending s"
  by (simp add: run_task_def setters Let_def split: option.splits)

lemma generate_frame:
  assumes "pending s = []"
  shows "logoPreview (generate env s) = logoPreview s
         \<and> logoInputRef (generate env s) = logoInputRef s"
proof -
  let ?s' = "embedLogoInQRCode env s"
  from embed_pending [of env s] assms
  consider "pending ?s' = []" | "pending ?s' = [QRLogoOnload (logoPreview s)]"
    by auto
  then show ?thesis
  proof cases
    case 1
    then show ?thesis
      by (simp add: generate_def settle_idle embed_frame)
  next
    case 2
    then have "settle env ?s' = run_task env (QRLogoOnload (logoPreview s)) (?s'\<lparr>pending := []\<rparr>)"
      by (simp add: settle_step settle_idle onload_frame)
    then show ?thesis
      by (simp add: generate_def onload_frame embed_frame)
  qed
qed

text \<open>Generation without a logo, in full: the handler, and the handler with the event loop.\<close>

lemma embed_plain:
  assumes "trim (inputData s) \<noteq> []" and "canvasRef s = Some cv" and "clip cv = []"
    and "logoPreview s = []"
    and "toCanvas env (cv\<lparr>painted := []\<rparr>) (inputData s) qrOptions = Some cv'"
  shows "embedLogoInQRCode env s =
           s\<lparr>qrCode := toDataURL env cv', error := [], loading := False, canvasRef := Some cv',
             trace := trace s @
               [SetLoading True, SetError [],
                CanvasClearRect 0 0 (real (cv_width cv)) (real (cv_height cv)),
                QRCodeToCanvas (inputData s) qrOptions,
                SetQRCode (toDataURL env cv'), SetLoading False]\<rparr>"
  using assms
  by (simp add: embedLogoInQRCode_def clearRect_all setters Let_def)

lemma generate_plain:
  assumes "trim (inputData s) \<noteq> []" and "canvasRef s = Some cv" and "clip cv = []"
    and "logoPreview s = []" and "pending s = []"
    and "toCanvas env (cv\<lparr>painted := []\<rparr>) (inputData s) qrOptions = Some cv'"
  shows "generate env s =
           s\<lparr>qrCode := toDataURL env cv', error := [], loading := False, canvasRef := Some cv',
             trace := trace s @
               [SetLoading True, SetError [],
                CanvasClearRect 0 0 (real (cv_width cv)) (real (cv_height cv)),
                QRCodeToCanvas (inputData s) qrOptions,
                SetQRCode (toDataURL env cv'), SetLoading False]\<rparr>"
  using assms
  by (simp add: generate_def embed_plain settle_idle)

lemma removeLogo_fields:
  "logoPreview (removeLogo s) = []"
  "inputData (removeLogo s) = inputData s"
  "canvasRef (removeLogo s) = canvasRef s"
  "pending (removeLogo s) = pending s"
  "qrCode (removeLogo s) = qrCode s"
  "error (removeLogo s) = error s"
  "trace (removeLogo s) = trace s @ [SetLogoPreview []]"
  by (simp_all add: removeLogo_def setters Let_def split: option.splits)

subsection \<open>Upload\<close>

lemma upload_accepted:
  assumes "file_size f \<le> 5242880" and "readAsDataURL env f = Some url"
    and "loadImage env url = Some img" and "pending s = []"
  shows "upload env (f # fs) s =
           s\<lparr>logoPreview := toDataURL env (processLogo img),
             trace := trace s @
               [FileReaderRead f, SetLogoPreview (toDataURL env (processLogo img))]\<rparr>"
  using assms
  by (simp add: upload_def handleLogoUpload_def settle.simps run_task_def setters)

text \<open>The logo canvas of an image with positive width and height, computed.\<close>

lemma processLogo_canvas:
  assumes "img_width img \<noteq> 0" and "img_height img \<noteq> 0"
  shows "processLogo img =
     (let w = real (unat (img_width img)); h = real (unat (img_height img));
          scale = min (toDouble (80 / w)) (toDouble (80 / h));
          scaledWidth = toDouble (w * scale); scaledHeight = toDouble (h * scale)
      in \<lparr>cv_width = 100, cv_height = 100, fillStyle = js ''white'',
          path = [Arc 50 50 40 0 (2 * Math_PI), ClosePath],
          clip = [[Arc 50 50 40 0 (2 * Math_PI), ClosePath]],
          painted =
            [Fill (js ''white'') [RoundRect 0 0 100 100 [20]] [],
             Image img (toDouble (toDouble (100 - scaledWidth) / 2))
               (toDouble (toDouble (100 - scaledHeight) / 2)) scaledWidth scaledHeight
               [[Arc 50 50 40 0 (2 * Math_PI), ClosePath]]]\<rparr>)"
  using assms
  by (simp add: processLogo_def Let_def canvas_ops ctx_arc_def ctx_drawImage_def
        toDouble_constants unsigned_eq_0_iff)

text \<open>An image of zero width or height leaves the white plate alone.\<close>

lemma processLogo_empty_image:
  assumes "img_width img = 0 \<or> img_height img = 0"
  shows "painted (processLogo img) = [Fill (js ''white'') [RoundRect 0 0 100 100 [20]] []]"
  using assms
  by (auto simp: processLogo_def Let_def canvas_ops ctx_arc_def ctx_drawImage_def
        toDouble_constants)

subsection \<open>The examples, evaluated\<close>

lemmas demo_eval =
  generate_def embedLogoInQRCode_def hello_page_def initial_def settle.simps run_task_def
  demo_browser_def failing_browser_def toDataURL_def setters trim_def isWhiteSpace_def
  qrOptions_def Let_def canvas_ops decimal.simps digitChar_def js_def

text \<open>
  A 200 by 100 image is scaled without rounding. A 147 by 147 image is not: the quotient
  80/147 is rounded, and the product with 147 is the double after 80.
\<close>

lemma wide_logo:
  "painted (processLogo \<lparr>img_src = u, img_width = 200, img_height = 100\<rparr>) =
     [Fill (js ''white'') [RoundRect 0 0 100 100 [20]] [],
      Image \<lparr>img_src = u, img_width = 200, img_height = 100\<rparr> 10 30 80 40
        [[Arc 50 50 40 0 (2 * Math_PI), ClosePath]]]"
  by (simp add: processLogo_canvas double_eval)

lemma square_logo:
  "painted (processLogo square_image) =
     [Fill (js ''white'') [RoundRect 0 0 100 100 [20]] [],
      Image square_image
        (1407374883553279 / 140737488355328) (1407374883553279 / 140737488355328)
        (5629499534213121 / 70368744177664) (5629499534213121 / 70368744177664)
        [[Arc 50 50 40 0 (2 * Math_PI), ClosePath]]]"
  by (simp add: processLogo_canvas square_image_def double_eval)

lemma with_logo_eq:
  "with_logo =
     hello_page\<lparr>logoPreview := js ''data:image/png;base64,2'',
       trace := [FileReaderRead small_logo, SetLogoPreview (js ''data:image/png;base64,2'')]\<rparr>"
  by (simp add: with_logo_def upload_def handleLogoUpload_def small_logo_def hello_page_def
        initial_def settle.simps run_task_def demo_browser_def toDataURL_def setters
        wide_logo decimal.simps digitChar_def js_def)

lemma logo_generated_eq:
  "logo_generated =
     hello_page\<lparr>logoPreview := js ''data:image/png;base64,2'',
       qrCode := js ''data:image/png;base64,2'',
       canvasRef := Some logo_canvas,
       trace := [FileReaderRead small_logo, SetLogoPreview (js ''data:image/png;base64,2''),
                 SetLoading True, SetError [], CanvasClearRect 0 0 400 400,
                 QRCodeToCanvas (js ''hello'') qrOptions, SetLoading False,
                 CanvasDrawImage logo_image 150 150 100 100,
                 SetQRCode (js ''data:image/png;base64,2'')]\<rparr>"
  by (simp add: logo_generated_def with_logo_eq logo_image_def logo_canvas_def demo_eval)

lemma logo_generated_facts:
  "pending logo_generated = []"
  "inputData logo_generated = js ''hello''"
  "canvasRef logo_generated = Some logo_canvas"
  "logoPreview logo_generated = js ''data:image/png;base64,2''"
  "qrCode logo_generated = js ''data:image/png;base64,2''"
  by (simp_all add: logo_generated_eq hello_page_def initial_def)

lemma logo_in_flight_eq:
  "logo_in_flight =
     hello_page\<lparr>logoPreview := js ''data:image/png;base64,2'',
       canvasRef := Some hello_canvas,
       pending := [QRLogoOnload (js ''data:image/png;base64,2'')],
       trace := [FileReaderRead small_logo, SetLogoPreview (js ''data:image/png;base64,2''),
                 SetLoading True, SetError [], CanvasClearRect 0 0 400 400,
                 QRCodeToCanvas (js ''hello'') qrOptions, SetLoading False]\<rparr>"
  by (simp add: logo_in_flight_def with_logo_eq hello_canvas_def embedLogoInQRCode_def
        hello_page_def initial_def demo_browser_def setters trim_def isWhiteSpace_def
        qrOptions_def Let_def canvas_ops js_def)


text \<open>
  The callback of an earlier generation that is still pending when the logo is removed
  fires after the next generation has exported: it draws the removed logo over the code
  and exports again.
\<close>

lemma stale_callback_overdraws:
  "qrCode (generate demo_browser (removeLogo logo_in_flight)) = js ''data:image/png;base64,2''
   \<and> canvasRef (generate demo_browser (removeLogo logo_in_flight)) = Some logo_canvas"
  by (simp add: logo_in_flight_eq removeLogo_def hello_canvas_def logo_canvas_def
        logo_image_def demo_eval)

lemma demo_encodes_hello:
  "clip cv = [] \<Longrightarrow>
   toCanvas demo_browser (cv\<lparr>painted := p\<rparr>) (js ''hello'') qrOptions = Some hello_canvas"
  by (simp add: demo_browser_def hello_canvas_def qrOptions_def js_def)

subsection \<open>The scanner\<close>

lemma useEffect_scanning: "scanning (useEffect q)"
  by (simp add: useEffect_def render_def scanning_def)

lemma deliver_keeps_ref: "scannerRef q \<noteq> None \<Longrightarrow> scannerRef (deliver fr q) \<noteq> None"
  by (auto simp: deliver_def onScanSuccess_def onScanError_def clear_def Let_def
        split: option.splits frame.splits)

lemma frames_keep_ref:
  "scannerRef q \<noteq> None \<Longrightarrow> scannerRef (fold deliver frames q) \<noteq> None"
proof (induction frames arbitrary: q)
  case Nil
  then show ?case by simp
next
  case (Cons fr frames)
  from Cons.prems have "scannerRef (deliver fr q) \<noteq> None"
    by (rule deliver_keeps_ref)
  then have "scannerRef (fold deliver frames (deliver fr q)) \<noteq> None"
    by (rule Cons.IH)
  then show ?case by simp
qed

lemma stopped_ignores_frames: "\<not> scanning q \<Longrightarrow> fold deliver frames q = q"
proof (induction frames)
  case Nil
  show ?case by simp
next
  case (Cons fr frames)
  from Cons.prems have "deliver fr q = q"
    by (simp add: deliver_def scanning_def split: option.splits)
  with Cons show ?case by simp
qed

lemma failed_frames_logged:
  "scanning q \<Longrightarrow>
   fold deliver (map NotDecoded errs) q = q\<lparr>effects := effects q @ map LogError errs\<rparr>"
proof (induction errs arbitrary: q)
  case Nil
  show ?case by simp
next
  case (Cons e errs)
  from Cons.prems
  have step: "deliver (NotDecoded e) q = q\<lparr>effects := effects q @ [LogError e]\<rparr>"
    by (simp add: deliver_def scanning_def onScanError_def split: option.splits)
  from Cons.prems have "scanning (q\<lparr>effects := effects q @ [LogError e]\<rparr>)"
    by (simp add: scanning_def)
  from Cons.IH [OF this] step show ?case
    by simp
qed

lemma decode_tears_down:
  assumes "scanning q"
  shows "effects (deliver (Decoded t) q) = effects q @ [OnResult t, ClearScanner]"
    and "released (deliver (Decoded t) q)"
    and "\<not> scanning (deliver (Decoded t) q)"
  using assms
  by (auto simp: deliver_def scanning_def released_def onScanSuccess_def clear_def Let_def
        split: option.splits)

lemma cleanup_releases: "scannerRef q \<noteq> None \<Longrightarrow> released (cleanup q)"
  by (auto simp: cleanup_def clear_def released_def)

section \<open>Generation: the successful run\<close>

text \<open>
  C1, as stated, at an explicit input. The input text is one space: its length is 1, the
  encoder of \<open>demo_browser\<close> accepts it, and yet generation produces no artifact and
  shows the validation error, because the source tests the trimmed text.
\<close>

theorem blank_text_counterexample:
  "0 < length (inputData blank_page)
   \<and> toCanvas demo_browser (set_height 400 (set_width 400 createCanvas))
        (inputData blank_page) qrOptions \<noteq> None
   \<and> qrCode (generate demo_browser blank_page) = []
   \<and> error (generate demo_browser blank_page) = js ''Please enter data''"
  by (simp add: blank_page_def initial_def demo_browser_def generate_def embedLogoInQRCode_def
        trim_def isWhiteSpace_def setError_def emit_def settle.simps)

text \<open>
  C1, amended. When the input text is not empty after trimming, the working canvas is
  mounted, the encoder accepts the text, and the logo, if there is one, loads as an image,
  then generation, run until no callback is pending, leaves \<open>qrCode\<close> set to a non-empty
  string, the data URL of a canvas, and leaves the error empty. Other callbacks may be
  pending when generation starts.
\<close>

theorem generation_succeeds:
  assumes "trim (inputData s) \<noteq> []"
    and "canvasRef s = Some cv"
    and "toCanvas env (clearRect 0 0 (real (cv_width cv)) (real (cv_height cv)) cv)
           (inputData s) qrOptions \<noteq> None"
    and "logoPreview s = [] \<or> loadImage env (logoPreview s) \<noteq> None"
  shows "qrCode (generate env s) \<noteq> []
         \<and> (\<exists>cv'. qrCode (generate env s) = toDataURL env cv')
         \<and> error (generate env s) = []"
proof -
  from assms have "will_export env (embedLogoInQRCode env s)"
    by (auto simp: will_export_def exported_def embedLogoInQRCode_def setters Let_def)
  then have ex: "exported env (qrCode (generate env s))"
    unfolding generate_def by (rule settle_exports)
  from assms have "error (embedLogoInQRCode env s) = []"
    by (auto simp: embedLogoInQRCode_def setters Let_def)
  then have "error (generate env s) = []"
    by (simp add: generate_def settle_error)
  with ex exported_nonempty [OF ex] show ?thesis
    by (simp add: exported_def)
qed

theorem generation_succeeds_witness:
  "trim (inputData with_logo) = js ''hello''
   \<and> loadImage demo_browser (logoPreview with_logo) \<noteq> None
   \<and> qrCode (generate demo_browser with_logo) = js ''data:image/png;base64,2''
   \<and> error (generate demo_browser with_logo) = []"
proof -
  have a: "trim (inputData with_logo) \<noteq> []"
    by (simp add: with_logo_eq demo_eval)
  have b: "canvasRef with_logo = Some (set_height 400 (set_width 400 createCanvas))"
    by (simp add: with_logo_eq hello_page_def initial_def)
  have c: "toCanvas demo_browser
             (clearRect 0 0 (real (cv_width (set_height 400 (set_width 400 createCanvas))))
                (real (cv_height (set_height 400 (set_width 400 createCanvas))))
                (set_height 400 (set_width 400 createCanvas)))
             (inputData with_logo) qrOptions \<noteq> None"
    by (simp add: with_logo_eq demo_eval)
  have d: "logoPreview with_logo = [] \<or> loadImage demo_browser (logoPreview with_logo) \<noteq> None"
    by (simp add: demo_browser_def)
  from generation_succeeds [OF a b c d] show ?thesis
    by (simp add: with_logo_eq demo_eval)
qed

section \<open>Validation of the input text\<close>

text \<open>
  C2. When the input text is empty or consists of white space only, \<^verbatim>\<open>embedLogoInQRCode\<close>
  does one thing: it sets the error to the validation message. The trace gains that one
  effect, so the encoder is not called and nothing is drawn; the working canvas, the
  artifact and the queue of callbacks are as before.
\<close>

theorem blank_input_rejected:
  assumes "list_all isWhiteSpace (inputData s)"
  shows "embedLogoInQRCode env s =
           s\<lparr>error := js ''Please enter data'',
             trace := trace s @ [SetError (js ''Please enter data'')]\<rparr>"
  using assms by (simp add: embedLogoInQRCode_def trim_Nil_iff setError_def emit_def)

theorem blank_input_rejected_witness:
  "embedLogoInQRCode demo_browser (initial\<lparr>inputData := [0x20, 0x09, 0x0A, 0x3000]\<rparr>) =
     initial\<lparr>inputData := [0x20, 0x09, 0x0A, 0x3000], error := js ''Please enter data'',
             trace := [SetError (js ''Please enter data'')]\<rparr>"
proof -
  have "list_all isWhiteSpace (inputData (initial\<lparr>inputData := [0x20, 0x09, 0x0A, 0x3000]\<rparr>))"
    by (simp add: isWhiteSpace_def)
  from blank_input_rejected [OF this, of demo_browser] show ?thesis
    by (simp add: initial_def)
qed

section \<open>The logo preprocessor\<close>

text \<open>
  C3. For a file within the size limit the handler starts the reader; when the read
  delivers a URL the reader's callback assigns it to an image; when that image loads
  with positive width \<open>w\<close> and height \<open>h\<close>, its callback stores, as logo preview, the
  export of a canvas that is 100 by 100 and was painted by exactly two operations: a
  white fill of the rounded rectangle from (0,0) of size 100 by 100 with corner radius
  20, under no clip; then the image, under the clip of the closed circle of radius 40
  around (50,50). The image is scaled by \<open>scale\<close>, the smaller of the doubles \<open>80/w\<close> and
  \<open>80/h\<close>, to the doubles \<open>w * scale\<close> and \<open>h * scale\<close>, and placed at half of what is left
  of 100 in each direction, each operation rounded as the source computes it. With no
  other callback pending, the upload as a whole ends with that logo preview.
\<close>

theorem logo_preprocessing:
  assumes "file_size f \<le> 5242880"
    and "readAsDataURL env f = Some url"
    and "loadImage env url = Some img"
    and "img_width img \<noteq> 0" and "img_height img \<noteq> 0"
  shows "handleLogoUpload (f # fs) s = later (FileReaderOnload f) (emit (FileReaderRead f) s)
    \<and> run_task env (FileReaderOnload f) s = later (UploadImgOnload url) s
    \<and> run_task env (UploadImgOnload url) s =
        setLogoPreview (toDataURL env (processLogo img)) s
    \<and> (pending s = [] \<longrightarrow>
         logoPreview (upload env (f # fs) s) = toDataURL env (processLogo img))
    \<and> cv_width (processLogo img) = 100 \<and> cv_height (processLogo img) = 100
    \<and> (let w = real (unat (img_width img)); h = real (unat (img_height img));
            scale = min (toDouble (80 / w)) (toDouble (80 / h));
            scaledWidth = toDouble (w * scale); scaledHeight = toDouble (h * scale)
        in painted (processLogo img) =
             [Fill (js ''white'') [RoundRect 0 0 100 100 [20]] [],
              Image img (toDouble (toDouble (100 - scaledWidth) / 2))
                (toDouble (toDouble (100 - scaledHeight) / 2)) scaledWidth scaledHeight
                [[Arc 50 50 40 0 (2 * Math_PI), ClosePath]]])"
proof -
  have "handleLogoUpload (f # fs) s = later (FileReaderOnload f) (emit (FileReaderRead f) s)"
    using assms(1) by (simp add: handleLogoUpload_def)
  moreover have "run_task env (FileReaderOnload f) s = later (UploadImgOnload url) s"
    using assms(2) by (simp add: run_task_def)
  moreover have "run_task env (UploadImgOnload url) s =
        setLogoPreview (toDataURL env (processLogo img)) s"
    using assms(3) by (simp add: run_task_def)
  moreover have "pending s = [] \<longrightarrow>
         logoPreview (upload env (f # fs) s) = toDataURL env (processLogo img)"
    using assms(1-3) by (simp add: upload_accepted)
  moreover have "cv_width (processLogo img) = 100" "cv_height (processLogo img) = 100"
    using assms(4,5) by (simp_all add: processLogo_canvas Let_def)
  moreover have "painted (processLogo img) =
     (let w = real (unat (img_width img)); h = real (unat (img_height img));
          scale = min (toDouble (80 / w)) (toDouble (80 / h));
          scaledWidth = toDouble (w * scale); scaledHeight = toDouble (h * scale)
      in [Fill (js ''white'') [RoundRect 0 0 100 100 [20]] [],
          Image img (toDouble (toDouble (100 - scaledWidth) / 2))
            (toDouble (toDouble (100 - scaledHeight) / 2)) scaledWidth scaledHeight
            [[Arc 50 50 40 0 (2 * Math_PI), ClosePath]]])"
    using assms(4,5) by (simp add: processLogo_canvas Let_def)
  ultimately show ?thesis
    by (simp add: Let_def)
qed

theorem logo_preprocessing_witness:
  "file_size small_logo \<le> 5242880
   \<and> loadImage demo_browser (js ''data:image/png;base64,logo.png'') = Some wide_image
   \<and> handleLogoUpload [small_logo] hello_page =
       later (FileReaderOnload small_logo) (emit (FileReaderRead small_logo) hello_page)
   \<and> logoPreview (upload demo_browser [small_logo] hello_page) =
       toDataURL demo_browser (processLogo wide_image)
   \<and> cv_width (processLogo wide_image) = 100 \<and> cv_height (processLogo wide_image) = 100
   \<and> painted (processLogo wide_image) =
        [Fill (js ''white'') [RoundRect 0 0 100 100 [20]] [],
         Image wide_image 10 30 80 40 [[Arc 50 50 40 0 (2 * Math_PI), ClosePath]]]"
proof -
  have a: "file_size small_logo \<le> 5242880"
    by (simp add: small_logo_def)
  have b: "readAsDataURL demo_browser small_logo = Some (js ''data:image/png;base64,logo.png'')"
    by (simp add: demo_browser_def small_logo_def js_def)
  have c: "loadImage demo_browser (js ''data:image/png;base64,logo.png'') = Some wide_image"
    by (simp add: demo_browser_def wide_image_def)
  have d: "pending hello_page = []"
    by (simp add: hello_page_def initial_def)
  have e: "img_width wide_image \<noteq> 0" "img_height wide_image \<noteq> 0"
    by (simp_all add: wide_image_def)
  from logo_preprocessing [OF a b c e, of "[]" hello_page] a c d show ?thesis
    by (simp add: wide_image_def double_eval)
qed

section \<open>The size limit of the upload\<close>

text \<open>
  C4. When the first selected file is larger than 5,242,880 bytes, \<^verbatim>\<open>handleLogoUpload\<close>
  sets the error to the size message and does nothing else: the logo preview is not
  updated, no reader is started and no callback is queued.
\<close>

theorem oversized_upload_rejected:
  assumes "5242880 < file_size f"
  shows "handleLogoUpload (f # fs) s =
           s\<lparr>error := js ''Logo must be less than 5MB'',
             trace := trace s @ [SetError (js ''Logo must be less than 5MB'')]\<rparr>"
  using assms by (simp add: handleLogoUpload_def setError_def emit_def)

theorem oversized_upload_rejected_witness:
  "handleLogoUpload [huge_logo] initial =
     initial\<lparr>error := js ''Logo must be less than 5MB'',
             trace := [SetError (js ''Logo must be less than 5MB'')]\<rparr>"
proof -
  have "5242880 < file_size huge_logo"
    by (simp add: huge_logo_def)
  from oversized_upload_rejected [OF this, of "[]" initial] show ?thesis
    by (simp add: initial_def)
qed

section \<open>Generation: the encoder fails\<close>

text \<open>
  C5. When the input passes the validation, the working canvas is mounted and the encoder
  rejects, \<^verbatim>\<open>embedLogoInQRCode\<close> performs exactly these effects, in this order: it sets
  the loading flag, empties the error, clears the canvas, calls the encoder, logs the
  failure, sets the error to "Failed to generate QR code" and clears the loading flag.
  The artifact is not set: \<open>qrCode\<close> keeps its value, and no callback is queued that
  could set it later.
\<close>

theorem encoder_failure_caught:
  assumes "trim (inputData s) \<noteq> []"
    and "canvasRef s = Some cv"
    and "toCanvas env (clearRect 0 0 (real (cv_width cv)) (real (cv_height cv)) cv)
           (inputData s) qrOptions = None"
  shows "embedLogoInQRCode env s =
           s\<lparr>error := js ''Failed to generate QR code'',
             loading := False,
             canvasRef := Some (clearRect 0 0 (real (cv_width cv)) (real (cv_height cv)) cv),
             trace := trace s @
               [SetLoading True, SetError [],
                CanvasClearRect 0 0 (real (cv_width cv)) (real (cv_height cv)),
                QRCodeToCanvas (inputData s) qrOptions,
                ConsoleError (js ''QR Code Generation Error:''),
                SetError (js ''Failed to generate QR code''),
                SetLoading False]\<rparr>
         \<and> qrCode (embedLogoInQRCode env s) = qrCode s
         \<and> pending (embedLogoInQRCode env s) = pending s"
  using assms
  by (simp add: embedLogoInQRCode_def setLoading_def setError_def emit_def Let_def)

theorem encoder_failure_caught_witness:
  "trim (inputData hello_page) = js ''hello''
   \<and> embedLogoInQRCode failing_browser hello_page =
       hello_page\<lparr>error := js ''Failed to generate QR code'',
         trace := [SetLoading True, SetError [], CanvasClearRect 0 0 400 400,
                   QRCodeToCanvas (js ''hello'') qrOptions,
                   ConsoleError (js ''QR Code Generation Error:''),
                   SetError (js ''Failed to generate QR code''), SetLoading False]\<rparr>
   \<and> qrCode (embedLogoInQRCode failing_browser hello_page) = []"
proof -
  have a: "trim (inputData hello_page) \<noteq> []"
    by (simp add: demo_eval)
  have b: "canvasRef hello_page = Some (set_height 400 (set_width 400 createCanvas))"
    by (simp add: hello_page_def initial_def)
  have c: "toCanvas failing_browser
             (clearRect 0 0 (real (cv_width (set_height 400 (set_width 400 createCanvas))))
                (real (cv_height (set_height 400 (set_width 400 createCanvas))))
                (set_height 400 (set_width 400 createCanvas)))
             (inputData hello_page) qrOptions = None"
    by (simp add: failing_browser_def)
  from encoder_failure_caught [OF a b c] show ?thesis
    by (simp add: demo_eval)
qed

section \<open>Generation: what it leaves alone, what it redoes\<close>

text \<open>
  C6. \<^verbatim>\<open>embedLogoInQRCode\<close> never changes the logo preview or the file input that holds
  the uploaded file, and neither does the whole generation, run until no callback is
  pending, when none was pending before. Every run that passes the validation on a
  mounted canvas clears the whole working canvas and then calls the encoder with the
  current input text; with no clip set on the canvas, what the canvas holds when the
  handler returns is what the encoder made of the blank canvas, whatever was painted
  before.
\<close>

theorem generation_frame:
  "logoPreview (embedLogoInQRCode env s) = logoPreview s
   \<and> logoInputRef (embedLogoInQRCode env s) = logoInputRef s
   \<and> (pending s = [] \<longrightarrow>
        logoPreview (generate env s) = logoPreview s
        \<and> logoInputRef (generate env s) = logoInputRef s)
   \<and> (trim (inputData s) \<noteq> [] \<and> canvasRef s = Some cv \<longrightarrow>
        (\<exists>rest. trace (embedLogoInQRCode env s) =
           trace s @
             [SetLoading True, SetError [],
              CanvasClearRect 0 0 (real (cv_width cv)) (real (cv_height cv)),
              QRCodeToCanvas (inputData s) qrOptions] @ rest))
   \<and> (trim (inputData s) \<noteq> [] \<and> canvasRef s = Some cv \<and> clip cv = [] \<longrightarrow>
        canvasRef (embedLogoInQRCode env s) =
          Some (case toCanvas env (cv\<lparr>painted := []\<rparr>) (inputData s) qrOptions of
                  None \<Rightarrow> cv\<lparr>painted := []\<rparr>
                | Some cv' \<Rightarrow> cv'))"
proof -
  have "trim (inputData s) \<noteq> [] \<and> canvasRef s = Some cv \<longrightarrow>
        (\<exists>rest. trace (embedLogoInQRCode env s) =
           trace s @
             [SetLoading True, SetError [],
              CanvasClearRect 0 0 (real (cv_width cv)) (real (cv_height cv)),
              QRCodeToCanvas (inputData s) qrOptions] @ rest)"
    by (simp add: embedLogoInQRCode_def setters Let_def split: option.splits)
  moreover have "trim (inputData s) \<noteq> [] \<and> canvasRef s = Some cv \<and> clip cv = [] \<longrightarrow>
        canvasRef (embedLogoInQRCode env s) =
          Some (case toCanvas env (cv\<lparr>painted := []\<rparr>) (inputData s) qrOptions of
                  None \<Rightarrow> cv\<lparr>painted := []\<rparr>
                | Some cv' \<Rightarrow> cv')"
    by (simp add: embedLogoInQRCode_def clearRect_all setters Let_def split: option.splits)
  ultimately show ?thesis
    using embed_frame [of env s] generate_frame [of s env] by blast
qed

theorem generation_frame_witness:
  "pending logo_generated = []
   \<and> trim (inputData logo_generated) \<noteq> []
   \<and> logoPreview logo_generated \<noteq> []
   \<and> logoPreview (generate demo_browser logo_generated) = logoPreview logo_generated
   \<and> logoInputRef (generate demo_browser logo_generated) = logoInputRef logo_generated
   \<and> canvasRef logo_generated = Some logo_canvas
   \<and> canvasRef (embedLogoInQRCode demo_browser logo_generated) = Some hello_canvas"
proof -
  have valid: "trim (inputData logo_generated) \<noteq> []"
    by (simp add: logo_generated_facts trim_hello) (simp add: js_def)
  have noclip: "clip logo_canvas = []"
    by (simp add: logo_canvas_def createCanvas_def)
  have logo: "logoPreview logo_generated \<noteq> []"
    by (simp add: logo_generated_facts js_def)
  from generation_frame [of demo_browser logo_generated logo_canvas]
    valid noclip logo logo_generated_facts(1,3)
  show ?thesis
    by (simp add: logo_generated_facts(2) demo_encodes_hello)
qed

section \<open>Download\<close>

text \<open>
  C7. Without an artifact (\<open>qrCode\<close> empty) \<^verbatim>\<open>downloadQRCode\<close> sets the error to
  "No QR code to download" and starts no download. With an artifact it starts exactly one
  download, of the artifact, under the name \<open>qrcode-\<close>, the decimal value of
  \<^verbatim>\<open>Date.now()\<close>, \<open>.png\<close>; the state is otherwise unchanged.
\<close>

theorem download_requires_artifact:
  "(qrCode s = [] \<longrightarrow>
      downloadQRCode now s =
        s\<lparr>error := js ''No QR code to download'',
          trace := trace s @ [SetError (js ''No QR code to download'')]\<rparr>)
   \<and> (qrCode s \<noteq> [] \<longrightarrow>
      downloadQRCode now s =
        s\<lparr>trace := trace s @
             [AnchorClick (qrCode s) (js ''qrcode-'' @ numberToString now @ js ''.png'')]\<rparr>)"
  by (simp add: downloadQRCode_def setError_def emit_def)

theorem download_requires_artifact_witness:
  "downloadQRCode 1730000000000 initial =
     initial\<lparr>error := js ''No QR code to download'',
             trace := [SetError (js ''No QR code to download'')]\<rparr>
   \<and> downloadQRCode 1730000000000 (initial\<lparr>qrCode := js ''data:image/png;base64,AA==''\<rparr>) =
     initial\<lparr>qrCode := js ''data:image/png;base64,AA=='',
             trace := [AnchorClick (js ''data:image/png;base64,AA=='')
                         (js ''qrcode-1730000000000.png'')]\<rparr>"
  using download_requires_artifact [of initial 1730000000000]
    download_requires_artifact [of "initial\<lparr>qrCode := js ''data:image/png;base64,AA==''\<rparr>" 1730000000000]
  by (simp add: initial_def js_def numberToString_def decimal.simps digitChar_def)

section \<open>The scanner adapter\<close>

text \<open>
  C8. After activation, let the widget report any number of frames without a code, then a
  decoded text \<open>t\<close>, then any further frames. The component logs each failure, and
  scanning goes on after them; at the decoded frame it calls \<open>onResult\<close> with \<open>t\<close> and
  then clears the scanner; nothing is emitted for the frames after that, and the scanner
  is released. Deactivation after any frames clears the scanner, which releases it.
\<close>

theorem scanner_single_shot:
  "effects (fold deliver (map NotDecoded errs @ Decoded t # frames) (useEffect q)) =
     effects q @ Render # map LogError errs @ [OnResult t, ClearScanner]
   \<and> released (fold deliver (map NotDecoded errs @ Decoded t # frames) (useEffect q))
   \<and> scanning (fold deliver (map NotDecoded errs) (useEffect q))
   \<and> released (cleanup (fold deliver frames (useEffect q)))"
proof -
  let ?q1 = "fold deliver (map NotDecoded errs) (useEffect q)"
  have q1: "?q1 = (useEffect q)\<lparr>effects := effects (useEffect q) @ map LogError errs\<rparr>"
    using useEffect_scanning by (rule failed_frames_logged)
  then have still: "scanning ?q1"
    using useEffect_scanning [of q] by (simp add: scanning_def)
  have start: "effects (useEffect q) = effects q @ [Render]"
    by (simp add: useEffect_def render_def)
  let ?q2 = "deliver (Decoded t) ?q1"
  have "fold deliver (map NotDecoded errs @ Decoded t # frames) (useEffect q)
        = fold deliver frames ?q2"
    by simp
  also have "\<dots> = ?q2"
    using decode_tears_down(3) [OF still] by (rule stopped_ignores_frames)
  finally have all: "fold deliver (map NotDecoded errs @ Decoded t # frames) (useEffect q) = ?q2" .
  have "effects ?q2 = effects ?q1 @ [OnResult t, ClearScanner]"
    using still by (rule decode_tears_down(1))
  also have "effects ?q1 = effects q @ Render # map LogError errs"
    by (subst q1) (simp add: start)
  finally have eff: "effects ?q2 = effects q @ Render # map LogError errs @ [OnResult t, ClearScanner]"
    by simp
  have rel: "released ?q2"
    using still by (rule decode_tears_down(2))
  have "scannerRef (useEffect q) \<noteq> None"
    by (simp add: useEffect_def render_def)
  then have "scannerRef (fold deliver frames (useEffect q)) \<noteq> None"
    by (rule frames_keep_ref)
  then have "released (cleanup (fold deliver frames (useEffect q)))"
    by (rule cleanup_releases)
  with all eff rel still show ?thesis
    by simp
qed

theorem scanner_single_shot_witness:
  "effects (fold deliver [NotDecoded (js ''no code''), Decoded (js ''hello''), Decoded (js ''again'')]
             (useEffect unmounted)) =
     [Render, LogError (js ''no code''), OnResult (js ''hello''), ClearScanner]
   \<and> released (cleanup (fold deliver [Decoded (js ''again'')] (useEffect unmounted)))"
  using scanner_single_shot
    [of "[js ''no code'']" "js ''hello''" "[Decoded (js ''again'')]" unmounted]
  by (simp add: unmounted_def)

section \<open>Removing the logo\<close>



text \<open>
  C10. \<^verbatim>\<open>removeLogo\<close> empties the logo preview and, when the file input is mounted, its
  value and selection; it changes nothing else. In particular the artifact and the error
  are as before, and a download after the removal still exports the artifact that was
  there before it.
\<close>

theorem removeLogo_frame:
  "removeLogo s =
     s\<lparr>logoPreview := [],
       logoInputRef := map_option (\<lambda>inp. inp\<lparr>fi_value := [], fi_files := []\<rparr>) (logoInputRef s),
       trace := trace s @ [SetLogoPreview []]\<rparr>
   \<and> qrCode (removeLogo s) = qrCode s
   \<and> error (removeLogo s) = error s
   \<and> (qrCode s \<noteq> [] \<longrightarrow>
        downloadQRCode now (removeLogo s) =
          (removeLogo s)\<lparr>trace := trace (removeLogo s) @
            [AnchorClick (qrCode s) (js ''qrcode-'' @ numberToString now @ js ''.png'')]\<rparr>)"
  by (cases "logoInputRef s")
     (simp_all add: removeLogo_def setLogoPreview_def downloadQRCode_def emit_def Let_def)

theorem removeLogo_frame_witness:
  "qrCode logo_generated = js ''data:image/png;base64,2''
   \<and> qrCode (removeLogo logo_generated) = js ''data:image/png;base64,2''
   \<and> error (removeLogo logo_generated) = error logo_generated
   \<and> downloadQRCode 1730000000000 (removeLogo logo_generated) =
        (removeLogo logo_generated)\<lparr>trace := trace logo_generated @
          [SetLogoPreview [],
           AnchorClick (js ''data:image/png;base64,2'') (js ''qrcode-1730000000000.png'')]\<rparr>"
proof -
  have artifact: "qrCode logo_generated \<noteq> []"
    by (simp add: logo_generated_facts js_def)
  have name: "js ''qrcode-'' @ numberToString 1730000000000 @ js ''.png''
              = js ''qrcode-1730000000000.png''"
    by (simp add: numberToString_def decimal.simps digitChar_def js_def)
  from removeLogo_frame [of logo_generated 1730000000000, THEN conjunct2] artifact name
  show ?thesis
    by (simp add: logo_generated_facts removeLogo_fields)
qed

end
